theory Spec2Isabelle
  imports Complex_Main "HOL-Library.Char_ord" "HOL-Library.List_Lexorder" "HOL-Library.Multiset"
begin

section \<open>Values, exceptions and the world of \<^verbatim>\<open>ai_prompt.py\<close>\<close>

text \<open>
  What \<^verbatim>\<open>json.load\<close> and \<^verbatim>\<open>response.json()\<close> hand to the program: Python
  values built from \<^verbatim>\<open>None\<close>, booleans, numbers, strings, lists and dicts with string
  keys. A dict is an association list in insertion order; a key is looked up with
  \<open>map_of\<close>. \<open>JNull\<close> is Python's \<^verbatim>\<open>None\<close>. Strings are over the code points
  below 256. Of a float only its being zero is ever observed (truthiness), so a
  non-zero real also stands for NaN and the infinities.
\<close>

datatype json =
    JNull
  | JBool bool
  | JInt int
  | JFloat real
  | JStr string
  | JArr "json list"
  | JObj "(string \<times> json) list"

text \<open>
  The exception classes the program can meet, all of them subclasses of
  \<^verbatim>\<open>Exception\<close>, so \<^verbatim>\<open>except Exception\<close> catches every one. The asynchronous
  \<^verbatim>\<open>KeyboardInterrupt\<close> is outside the model; \<^verbatim>\<open>sys.exit\<close> is an outcome of
  \<open>main\<close>, below.
\<close>

datatype exn =
    FileNotFoundError
  | PermissionError
  | IsADirectoryError
  | UnicodeDecodeError
  | JSONDecodeError
  | KeyError
  | IndexError
  | TypeError
  | AttributeError
  | UnboundLocalError
  | EOFError
  | HTTPError
  | ConnectionError
  | Timeout
  | InvalidHeader

text \<open>
  An f-string is kept as its pieces: literal text, an interpolated value (rendered by
  Python's \<^verbatim>\<open>str\<close>; a string renders as itself) or an interpolated exception.
\<close>

datatype piece = T string | V json | E exn

datatype event =
    Print "piece list"      \<comment> \<open>\<^verbatim>\<open>print(...)\<close>\<close>
  | Help                    \<comment> \<open>\<^verbatim>\<open>parser.print_help()\<close>\<close>
  | Ask "piece list"        \<comment> \<open>the prompt of \<^verbatim>\<open>input(...)\<close>\<close>
  | AskSecret "piece list"  \<comment> \<open>the prompt of \<^verbatim>\<open>getpass.getpass(...)\<close>\<close>

type_synonym headers = "(string \<times> piece list) list"

datatype request =
    Post string headers json   \<comment> \<open>\<^verbatim>\<open>requests.post(url, headers=..., json=...)\<close>\<close>
  | Get string headers         \<comment> \<open>\<^verbatim>\<open>requests.get(url, headers=...)\<close>\<close>

record response =
  status_code :: nat
  resp_text :: string            \<comment> \<open>\<^verbatim>\<open>response.text\<close>\<close>
  resp_json :: "exn + json"      \<comment> \<open>what \<^verbatim>\<open>response.json()\<close> returns or raises\<close>

text \<open>
  A JSON file on disk, seen through \<^verbatim>\<open>open(path, 'r')\<close> and \<^verbatim>\<open>json.load\<close>:
  there is no file, or the file is there and reading it raises, or reading it returns
  a value. Text that is not valid JSON raises \<open>JSONDecodeError\<close>; bytes that do not
  decode as text (a UTF-16 or binary file) raise \<open>UnicodeDecodeError\<close>, which is not a
  \<open>JSONDecodeError\<close>. Writing a value with \<^verbatim>\<open>json.dump\<close> leaves a file that holds
  that value; the file system accepts every write.
\<close>

datatype jfile = NoFile | Fails exn | Holds json

record world =
  config_file :: jfile                        \<comment> \<open>\<^verbatim>\<open>~/.ai_prompt_config.json\<close>\<close>
  keys_file :: jfile                          \<comment> \<open>\<^verbatim>\<open>~/.ai_prompt_keys.json\<close>\<close>
  out :: "event list"                         \<comment> \<open>what was written to the terminal, in order\<close>
  sent :: "request list"                      \<comment> \<open>the network calls made, in order\<close>
  http :: "request \<Rightarrow> exn + response"         \<comment> \<open>what the network does with a call\<close>
  read_file :: "string \<Rightarrow> exn + string"       \<comment> \<open>\<^verbatim>\<open>open(path, 'r').read()\<close>\<close>
  stdin_isatty :: bool
  stdin_text :: string                        \<comment> \<open>\<^verbatim>\<open>sys.stdin.read()\<close>\<close>
  getpass_in :: "string list"                 \<comment> \<open>the operator's answers to \<^verbatim>\<open>getpass\<close>\<close>
  input_in :: "string list"                   \<comment> \<open>the operator's answers to \<^verbatim>\<open>input\<close>\<close>

definition say :: "piece list \<Rightarrow> world \<Rightarrow> world" where
  "say ps w = w\<lparr>out := out w @ [Print ps]\<rparr>"

subsection \<open>Python's truthiness and subscription\<close>

fun truthy :: "json \<Rightarrow> bool" where
  "truthy JNull = False"
| "truthy (JBool b) = b"
| "truthy (JInt i) = (i \<noteq> 0)"
| "truthy (JFloat r) = (r \<noteq> 0)"
| "truthy (JStr s) = (s \<noteq> [])"
| "truthy (JArr xs) = (xs \<noteq> [])"
| "truthy (JObj kvs) = (kvs \<noteq> [])"

text \<open>\<^verbatim>\<open>v[k]\<close> for a string \<open>k\<close>: only a dict accepts it.\<close>

fun item :: "json \<Rightarrow> string \<Rightarrow> exn + json" where
  "item (JObj kvs) k = (case map_of kvs k of None \<Rightarrow> Inl KeyError | Some x \<Rightarrow> Inr x)"
| "item _ k = Inl TypeError"

text \<open>
  \<^verbatim>\<open>v[0]\<close>: the first element of a list, the first character of a string; a dict
  decoded from JSON has no key \<^verbatim>\<open>0\<close>.
\<close>

fun item0 :: "json \<Rightarrow> exn + json" where
  "item0 (JArr []) = Inl IndexError"
| "item0 (JArr (x # xs)) = Inr x"
| "item0 (JStr []) = Inl IndexError"
| "item0 (JStr (c # cs)) = Inr (JStr [c])"
| "item0 (JObj kvs) = Inl KeyError"
| "item0 _ = Inl TypeError"

section \<open>The two stores\<close>

definition DEFAULT_CONFIG :: json where
  "DEFAULT_CONFIG = JObj
     [(''openai'', JObj [(''api_key'', JStr ''''), (''default_model'', JStr ''gpt-3.5-turbo'')]),
      (''openrouter'', JObj [(''api_key'', JStr ''''),
          (''default_model'', JStr ''google/gemini-2.0-pro-exp-02-05:free'')]),
      (''anthropic'', JObj [(''api_key'', JStr ''''),
          (''default_model'', JStr ''claude-3-opus-20240229'')]),
      (''default_provider'', JStr ''openrouter'')]"

text \<open>The path as written in the source; \<^verbatim>\<open>expanduser\<close> puts the home directory in.\<close>

definition CONFIG_PATH :: string where
  "CONFIG_PATH = ''~/.ai_prompt_config.json''"

definition load_config :: "world \<Rightarrow> (exn + json) \<times> world" where
  "load_config w =
     (case config_file w of
        Holds v \<Rightarrow> (Inr v, w)
      | Fails e \<Rightarrow> (Inl e, w)
      | NoFile \<Rightarrow>
          (Inr DEFAULT_CONFIG,
           say [T ''Created default configuration at '', T CONFIG_PATH]
             (w\<lparr>config_file := Holds DEFAULT_CONFIG\<rparr>)))"

definition save_config :: "json \<Rightarrow> world \<Rightarrow> world" where
  "save_config config w = w\<lparr>config_file := Holds config\<rparr>"

definition load_keys :: "world \<Rightarrow> exn + json" where
  "load_keys w =
     (case keys_file w of
        Holds v \<Rightarrow> Inr v
      | NoFile \<Rightarrow>
          Inr (JObj [(''openai'', JStr ''''), (''openrouter'', JStr ''''), (''anthropic'', JStr '''')])
      | Fails e \<Rightarrow>
          (if e = FileNotFoundError \<or> e = JSONDecodeError
           then Inr (JObj [(''openai'', JStr ''''), (''openrouter'', JStr ''''),
                           (''anthropic'', JStr '''')])
           else Inl e))"

section \<open>The provider adapters\<close>

definition then_do :: "exn + 'a \<Rightarrow> ('a \<Rightarrow> exn + 'b) \<Rightarrow> exn + 'b" where
  "then_do m f = (case m of Inl e \<Rightarrow> Inl e | Inr x \<Rightarrow> f x)"

text \<open>
  \<^verbatim>\<open>response.ok\<close>, which is also \<^verbatim>\<open>bool(response)\<close>: the status is not an error
  status. \<^verbatim>\<open>raise_for_status()\<close> raises \<open>HTTPError\<close> exactly when it is false.
\<close>

definition ok :: "response \<Rightarrow> bool" where
  "ok r = (\<not> (400 \<le> status_code r \<and> status_code r < 600))"

text \<open>
  \<^verbatim>\<open>response.raise_for_status(); response.json()["choices"][0]["message"]["content"]\<close>
\<close>

definition chat_text :: "response \<Rightarrow> exn + json" where
  "chat_text r =
     (if \<not> ok r then Inl HTTPError
      else then_do (resp_json r) (\<lambda>body.
           then_do (item body ''choices'') (\<lambda>choices.
           then_do (item0 choices) (\<lambda>choice.
           then_do (item choice ''message'') (\<lambda>message.
           item message ''content'')))))"

text \<open>\<^verbatim>\<open>response.raise_for_status(); response.json()["content"][0]["text"]\<close>\<close>

definition content_text :: "response \<Rightarrow> exn + json" where
  "content_text r =
     (if \<not> ok r then Inl HTTPError
      else then_do (resp_json r) (\<lambda>body.
           then_do (item body ''content'') (\<lambda>content.
           then_do (item0 content) (\<lambda>block.
           item block ''text''))))"

definition openai_request :: "string \<Rightarrow> json \<Rightarrow> json \<Rightarrow> request" where
  "openai_request prompt model api_key =
     Post ''https://api.openai.com/v1/chat/completions''
       [(''Content-Type'', [T ''application/json'']),
        (''Authorization'', [T ''Bearer '', V api_key])]
       (JObj [(''model'', model),
              (''messages'', JArr [JObj [(''role'', JStr ''user''), (''content'', JStr prompt)]]),
              (''temperature'', JFloat 0.7)])"

definition openrouter_request :: "string \<Rightarrow> json \<Rightarrow> json \<Rightarrow> request" where
  "openrouter_request prompt model api_key =
     Post ''https://openrouter.ai/api/v1/chat/completions''
       [(''Content-Type'', [T ''application/json'']),
        (''Authorization'', [T ''Bearer '', V api_key]),
        (''HTTP-Referer'', [T ''https://github.com/terminal-ai-prompt'']),
        (''X-Title'', [T ''Terminal AI Prompt''])]
       (JObj [(''model'', model),
              (''messages'', JArr [JObj [(''role'', JStr ''user''), (''content'', JStr prompt)]]),
              (''temperature'', JFloat 0.7)])"

definition anthropic_request :: "string \<Rightarrow> json \<Rightarrow> json \<Rightarrow> request" where
  "anthropic_request prompt model api_key =
     Post ''https://api.anthropic.com/v1/messages''
       [(''Content-Type'', [T ''application/json'']),
        (''x-api-key'', [V api_key]),
        (''anthropic-version'', [T ''2023-06-01''])]
       (JObj [(''model'', model),
              (''messages'', JArr [JObj [(''role'', JStr ''user''), (''content'', JStr prompt)]]),
              (''max_tokens'', JInt 4000),
              (''temperature'', JFloat 0.7)])"

text \<open>
  \<open>query_openai\<close> sets \<^verbatim>\<open>response = None\<close> before the \<^verbatim>\<open>try\<close>, and its handler
  prints the body only \<^verbatim>\<open>if response and hasattr(response, 'text')\<close>: when the call
  itself raised there is no response, and a response with an error status is falsy.
\<close>

definition query_openai :: "string \<Rightarrow> json \<Rightarrow> json \<Rightarrow> world \<Rightarrow> (exn + json) \<times> world" where
  "query_openai prompt model api_key w =
     (let rq = openai_request prompt model api_key;
          w1 = w\<lparr>sent := sent w @ [rq]\<rparr>
      in case http w rq of
           Inl e \<Rightarrow> (Inr JNull, say [T ''Error querying OpenAI: '', E e] w1)
         | Inr r \<Rightarrow>
             (case chat_text r of
                Inr x \<Rightarrow> (Inr x, w1)
              | Inl e \<Rightarrow>
                  (let w2 = say [T ''Error querying OpenAI: '', E e] w1
                   in (Inr JNull,
                       if ok r then say [T ''Response: '', T (resp_text r)] w2 else w2))))"

text \<open>
  The other two adapters assign \<^verbatim>\<open>response\<close> only inside the \<^verbatim>\<open>try\<close>. When
  \<^verbatim>\<open>requests.post\<close> raises, the handler's \<^verbatim>\<open>hasattr(response, 'text')\<close> reads a local
  that was never bound, and \<open>UnboundLocalError\<close> leaves the function.
\<close>

definition query_openrouter :: "string \<Rightarrow> json \<Rightarrow> json \<Rightarrow> world \<Rightarrow> (exn + json) \<times> world" where
  "query_openrouter prompt model api_key w =
     (let rq = openrouter_request prompt model api_key;
          w1 = w\<lparr>sent := sent w @ [rq]\<rparr>
      in case http w rq of
           Inl e \<Rightarrow> (Inl UnboundLocalError, say [T ''Error querying OpenRouter: '', E e] w1)
         | Inr r \<Rightarrow>
             (case chat_text r of
                Inr x \<Rightarrow> (Inr x, w1)
              | Inl e \<Rightarrow>
                  (Inr JNull,
                   say [T ''Response: '', T (resp_text r)]
                     (say [T ''Error querying OpenRouter: '', E e] w1))))"

definition query_anthropic :: "string \<Rightarrow> json \<Rightarrow> json \<Rightarrow> world \<Rightarrow> (exn + json) \<times> world" where
  "query_anthropic prompt model api_key w =
     (let rq = anthropic_request prompt model api_key;
          w1 = w\<lparr>sent := sent w @ [rq]\<rparr>
      in case http w rq of
           Inl e \<Rightarrow> (Inl UnboundLocalError, say [T ''Error querying Anthropic: '', E e] w1)
         | Inr r \<Rightarrow>
             (case content_text r of
                Inr x \<Rightarrow> (Inr x, w1)
              | Inl e \<Rightarrow>
                  (Inr JNull,
                   say [T ''Response: '', T (resp_text r)]
                     (say [T ''Error querying Anthropic: '', E e] w1))))"

section \<open>The model lister\<close>

text \<open>
  \<^verbatim>\<open>str.lower()\<close> on the code points below 256: the ASCII capitals and the Latin-1
  capitals (all of \<open>0xC0\<close> to \<open>0xDE\<close> but the multiplication sign) move up by 32.
\<close>

definition lower_char :: "char \<Rightarrow> char" where
  "lower_char c =
     (let n = (of_char c :: nat)
      in if (65 \<le> n \<and> n \<le> 90) \<or> (192 \<le> n \<and> n \<le> 222 \<and> n \<noteq> 215)
         then char_of (n + 32) else c)"

definition lower :: "string \<Rightarrow> string" where
  "lower s = map lower_char s"

text \<open>\<^verbatim>\<open>sub in s\<close> for two strings.\<close>

fun contains :: "string \<Rightarrow> string \<Rightarrow> bool" where
  "contains sub [] = (sub = [])"
| "contains sub (c # cs) = (take (length sub) (c # cs) = sub \<or> contains sub cs)"

text \<open>
  What a \<^verbatim>\<open>for\<close> loop iterates over: the elements of a list, the keys of a dict, the
  characters of a string; nothing else is iterable.
\<close>

fun iter :: "json \<Rightarrow> exn + json list" where
  "iter (JArr xs) = Inr xs"
| "iter (JObj kvs) = Inr (map (\<lambda>kv. JStr (fst kv)) kvs)"
| "iter (JStr s) = Inr (map (\<lambda>c. JStr [c]) s)"
| "iter _ = Inl TypeError"

text \<open>
  \<^verbatim>\<open>[model["id"] for model in ... if "gpt" in model["id"].lower()]\<close>: the first entry
  without an \<^verbatim>\<open>id\<close>, or whose \<^verbatim>\<open>id\<close> has no \<^verbatim>\<open>lower\<close>, raises.
\<close>

fun chat_models :: "json list \<Rightarrow> exn + string list" where
  "chat_models [] = Inr []"
| "chat_models (m # ms) =
     (case item m ''id'' of
        Inl e \<Rightarrow> Inl e
      | Inr (JStr s) \<Rightarrow>
          (case chat_models ms of
             Inl e \<Rightarrow> Inl e
           | Inr rest \<Rightarrow> Inr (if contains ''gpt'' (lower s) then s # rest else rest))
      | Inr _ \<Rightarrow> Inl AttributeError)"

text \<open>\<^verbatim>\<open>for model in ...: print(f"  - {model['id']} ({model['name']})")\<close>\<close>

fun print_entries :: "json list \<Rightarrow> world \<Rightarrow> (exn + unit) \<times> world" where
  "print_entries [] w = (Inr (), w)"
| "print_entries (m # ms) w =
     (case item m ''id'' of
        Inl e \<Rightarrow> (Inl e, w)
      | Inr i \<Rightarrow>
          (case item m ''name'' of
             Inl e \<Rightarrow> (Inl e, w)
           | Inr n \<Rightarrow> print_entries ms (say [T ''  - '', V i, T '' ('', V n, T '')''] w)))"

definition say_all :: "piece list list \<Rightarrow> world \<Rightarrow> world" where
  "say_all pss w = w\<lparr>out := out w @ map Print pss\<rparr>"

text \<open>The body of the \<^verbatim>\<open>try\<close> of \<open>list_models\<close>, after \<^verbatim>\<open>requests.get\<close> returned.\<close>

definition print_catalog :: "string \<Rightarrow> response \<Rightarrow> world \<Rightarrow> (exn + unit) \<times> world" where
  "print_catalog provider r w =
     (if \<not> ok r then (Inl HTTPError, w)
      else case resp_json r of
             Inl e \<Rightarrow> (Inl e, w)
           | Inr models \<Rightarrow>
               if provider = ''openai'' then
                 (case then_do (then_do (item models ''data'') iter) chat_models of
                    Inl e \<Rightarrow> (Inl e, w)
                  | Inr ids \<Rightarrow>
                      (Inr (),
                       say_all (map (\<lambda>m. [T ''  - '', T m]) (sort ids))
                         (say [T (CHR 0x0A # ''Available OpenAI models:'')] w)))
               else
                 (let w1 = say [T (CHR 0x0A # ''Available OpenRouter models:'')] w
                  in case then_do (item models ''data'') iter of
                       Inl e \<Rightarrow> (Inl e, w1)
                     | Inr ms \<Rightarrow> print_entries ms w1))"

text \<open>
  The \<^verbatim>\<open>try\<close> of \<open>list_models\<close> with its handler. As in the last two adapters,
  \<^verbatim>\<open>response\<close> is unbound in the handler when \<^verbatim>\<open>requests.get\<close> raised.
\<close>

definition fetch_catalog :: "string \<Rightarrow> string \<Rightarrow> headers \<Rightarrow> world \<Rightarrow> (exn + unit) \<times> world" where
  "fetch_catalog provider url hdrs w =
     (let w1 = w\<lparr>sent := sent w @ [Get url hdrs]\<rparr>
      in case http w (Get url hdrs) of
           Inl e \<Rightarrow> (Inl UnboundLocalError, say [T ''Error listing models: '', E e] w1)
         | Inr r \<Rightarrow>
             (case print_catalog provider r w1 of
                (Inr u, w2) \<Rightarrow> (Inr (), w2)
              | (Inl e, w2) \<Rightarrow>
                  (Inr (),
                   say [T ''Response: '', T (resp_text r)]
                     (say [T ''Error listing models: '', E e] w2))))"

definition list_models :: "string \<Rightarrow> json \<Rightarrow> world \<Rightarrow> (exn + unit) \<times> world" where
  "list_models provider api_key w =
     (if provider = ''openai'' then
        fetch_catalog provider ''https://api.openai.com/v1/models''
          [(''Authorization'', [T ''Bearer '', V api_key])] w
      else if provider = ''openrouter'' then
        fetch_catalog provider ''https://openrouter.ai/api/v1/models''
          [(''Authorization'', [T ''Bearer '', V api_key])] w
      else if provider = ''anthropic'' then
        (Inr (),
         say_all (map (\<lambda>m. [T ''  - '', T m])
                    [''claude-3-opus-20240229'', ''claude-3-sonnet-20240229'',
                     ''claude-3-haiku-20240307''])
           (say [T (CHR 0x0A # ''Available Anthropic models:'')] w))
      else (Inr (), say [T ''Unknown provider: '', T provider] w))"

section \<open>Interactive setup\<close>

text \<open>\<^verbatim>\<open>d[k] = v\<close> on a dict: an existing key keeps its place, a new one goes last.\<close>

fun dict_set :: "(string \<times> json) list \<Rightarrow> string \<Rightarrow> json \<Rightarrow> (string \<times> json) list" where
  "dict_set [] k v = [(k, v)]"
| "dict_set ((k', v') # kvs) k v =
     (if k' = k then (k, v) # kvs else (k', v') # dict_set kvs k v)"

fun set_item :: "json \<Rightarrow> string \<Rightarrow> json \<Rightarrow> exn + json" where
  "set_item (JObj kvs) k v = Inr (JObj (dict_set kvs k v))"
| "set_item _ k v = Inl TypeError"

fun dict_keys :: "json \<Rightarrow> string list" where
  "dict_keys (JObj kvs) = map fst kvs"
| "dict_keys _ = []"

text \<open>
  \<^verbatim>\<open>for provider in providers: if not keys[provider]: keys[provider] = getpass(...)\<close>
\<close>

fun ask_keys :: "string list \<Rightarrow> json \<Rightarrow> world \<Rightarrow> (exn + json) \<times> world" where
  "ask_keys [] keys w = (Inr keys, w)"
| "ask_keys (p # ps) keys w =
     (case item keys p of
        Inl e \<Rightarrow> (Inl e, w)
      | Inr k \<Rightarrow>
          if truthy k then ask_keys ps keys w
          else
            (let w1 = w\<lparr>out := out w @ [AskSecret [T ''Enter '', T p, T '' API key: '']]\<rparr>
             in case getpass_in w of
                  [] \<Rightarrow> (Inl EOFError, w1)
                | a # rest \<Rightarrow>
                    (case set_item keys p (JStr a) of
                       Inl e \<Rightarrow> (Inl e, w1\<lparr>getpass_in := rest\<rparr>)
                     | Inr keys' \<Rightarrow> ask_keys ps keys' (w1\<lparr>getpass_in := rest\<rparr>))))"

text \<open>
  \<^verbatim>\<open>config[p]["default_model"] = input(f"Default ... Model [{config[p]['default_model']}]: ")
      or config[p]["default_model"]\<close>
\<close>

definition ask_model :: "string \<Rightarrow> string \<Rightarrow> json \<Rightarrow> world \<Rightarrow> (exn + json) \<times> world" where
  "ask_model label p config w =
     (case then_do (item config p) (\<lambda>c. item c ''default_model'') of
        Inl e \<Rightarrow> (Inl e, w)
      | Inr cur \<Rightarrow>
          (let w1 = w\<lparr>out := out w @ [Ask [T ''Default '', T label, T '' Model ['', V cur, T '']: '']]\<rparr>
           in case input_in w of
                [] \<Rightarrow> (Inl EOFError, w1)
              | a # rest \<Rightarrow>
                  (then_do (item config p) (\<lambda>c.
                   then_do (set_item c ''default_model'' (if a \<noteq> [] then JStr a else cur)) (\<lambda>c'.
                   set_item config p c')),
                   w1\<lparr>input_in := rest\<rparr>)))"

definition known_providers :: "string list" where
  "known_providers = [''openai'', ''openrouter'', ''anthropic'']"

text \<open>
  \<^verbatim>\<open>provider in ["openai", "openrouter", "anthropic"]\<close>: the value is one of the three
  strings.
\<close>

fun as_known :: "json \<Rightarrow> string option" where
  "as_known (JStr s) = (if s \<in> set known_providers then Some s else None)"
| "as_known _ = None"

text \<open>The last part of \<open>setup_config\<close>: the default provider, then \<open>save_config\<close>.\<close>

definition ask_provider :: "json \<Rightarrow> world \<Rightarrow> (exn + unit) \<times> world" where
  "ask_provider config w =
     (let w0 = say [T (CHR 0x0A # ''Default Provider:'')] w
      in case item config ''default_provider'' of
        Inl e \<Rightarrow> (Inl e, w0)
      | Inr cur \<Rightarrow>
          (let w1 = w0\<lparr>out := out w0 @
                 [Ask [T ''Default Provider (openai/openrouter/anthropic) ['', V cur, T '']: '']]\<rparr>
           in case input_in w0 of
                [] \<Rightarrow> (Inl EOFError, w1)
              | a # rest \<Rightarrow>
                  (let w2 = w1\<lparr>input_in := rest\<rparr>;
                       default_provider = (if a \<noteq> [] then JStr a else cur)
                   in if as_known default_provider \<noteq> None then
                        (case set_item config ''default_provider'' default_provider of
                           Inl e \<Rightarrow> (Inl e, w2)
                         | Inr config' \<Rightarrow>
                             (Inr (),
                              say [T (CHR 0x0A # ''Configuration saved to ''), T CONFIG_PATH]
                                (save_config config' w2)))
                      else
                        (Inr (),
                         say [T (CHR 0x0A # ''Configuration saved to ''), T CONFIG_PATH]
                           (save_config config
                              (say [T ''Invalid provider '', T [CHR 0x27], V default_provider,
                                    T [CHR 0x27], T ''. Using '', T [CHR 0x27], V cur,
                                    T [CHR 0x27], T '' as default.''] w2))))))"

definition setup_config :: "world \<Rightarrow> (exn + unit) \<times> world" where
  "setup_config w =
     (case load_config w of
        (Inl e, w1) \<Rightarrow> (Inl e, w1)
      | (Inr config, w1) \<Rightarrow>
          (let w2 = say_all [[T ''AI Prompt Configuration Setup''],
                             [T ''============================''],
                             [T (CHR 0x0A # ''API Key Configuration'')],
                             [T ''======================'']] w1;
               providers = filter (\<lambda>p. p \<noteq> ''default_provider'') (dict_keys DEFAULT_CONFIG)
           in case load_keys w2 of
                Inl e \<Rightarrow> (Inl e, w2)
              | Inr keys \<Rightarrow>
                  (case ask_keys providers keys w2 of
                     (Inl e, w3) \<Rightarrow> (Inl e, w3)
                   | (Inr keys', w3) \<Rightarrow>
                       (let w4 = say_all [[T (CHR 0x0A # ''Model Configuration'')],
                                          [T ''===================='']]
                                   (w3\<lparr>keys_file := Holds keys'\<rparr>)
                        in case ask_model ''OpenAI'' ''openai'' config w4 of
                             (Inl e, w5) \<Rightarrow> (Inl e, w5)
                           | (Inr c1, w5) \<Rightarrow>
                               (case ask_model ''OpenRouter'' ''openrouter'' c1 w5 of
                                  (Inl e, w6) \<Rightarrow> (Inl e, w6)
                                | (Inr c2, w6) \<Rightarrow>
                                    (case ask_model ''Anthropic'' ''anthropic'' c2 w6 of
                                       (Inl e, w7) \<Rightarrow> (Inl e, w7)
                                     | (Inr c3, w7) \<Rightarrow> ask_provider c3 w7))))))"

section \<open>The command dispatcher\<close>

text \<open>
  The namespace \<^verbatim>\<open>parser.parse_args\<close> returns. \<open>main\<close> is modelled from there on;
  of the parser's own checks the model keeps the \<^verbatim>\<open>choices\<close> of \<^verbatim>\<open>--provider\<close>,
  whose violation makes the parser exit with status 2.
\<close>

record args =
  arg_model :: "string option"
  arg_prompt :: "string option"
  arg_provider :: "string option"
  arg_setup :: bool
  arg_list_models :: bool
  arg_file :: "string option"

datatype outcome = Returned | Raised exn | Exit int

text \<open>An optional string that is truthy: given and not empty.\<close>

fun nonempty :: "string option \<Rightarrow> string option" where
  "nonempty None = None"
| "nonempty (Some s) = (if s = [] then None else Some s)"

text \<open>
  Lines 251 to 263 of \<open>main\<close>: the prompt from the argument, the file or standard
  input. \<open>FileError\<close> is the \<^verbatim>\<open>return\<close> after a failed read.
\<close>

datatype resolved = FileError | Resolved "string option"

definition get_prompt :: "args \<Rightarrow> world \<Rightarrow> resolved \<times> world" where
  "get_prompt a w =
     (case nonempty (arg_prompt a) of
        Some p \<Rightarrow> (Resolved (Some p), w)
      | None \<Rightarrow>
          (case nonempty (arg_file a) of
             Some f \<Rightarrow>
               (case read_file w f of
                  Inr txt \<Rightarrow> (Resolved (Some txt), w)
                | Inl e \<Rightarrow> (FileError, say [T ''Error reading file: '', E e] w))
           | None \<Rightarrow>
               if \<not> stdin_isatty w then (Resolved (Some (stdin_text w)), w)
               else (Resolved None, w)))"

text \<open>Lines 272 to 278: the adapter of the provider, with that provider's key.\<close>

definition dispatch :: "string \<Rightarrow> string \<Rightarrow> json \<Rightarrow> json \<Rightarrow> world \<Rightarrow> (exn + json) \<times> world" where
  "dispatch provider prompt model keys w =
     (if provider = ''openai'' then
        (case item keys ''openai'' of
           Inl e \<Rightarrow> (Inl e, w) | Inr k \<Rightarrow> query_openai prompt model k w)
      else if provider = ''openrouter'' then
        (case item keys ''openrouter'' of
           Inl e \<Rightarrow> (Inl e, w) | Inr k \<Rightarrow> query_openrouter prompt model k w)
      else
        (case item keys ''anthropic'' of
           Inl e \<Rightarrow> (Inl e, w) | Inr k \<Rightarrow> query_anthropic prompt model k w))"

text \<open>\<^verbatim>\<open>a or b\<close> where \<open>a\<close> is an optional string of the namespace.\<close>

definition or_else :: "string option \<Rightarrow> exn + json \<Rightarrow> exn + json" where
  "or_else a b = (case nonempty a of Some s \<Rightarrow> Inr (JStr s) | None \<Rightarrow> b)"

definition main :: "args \<Rightarrow> world \<Rightarrow> outcome \<times> world" where
  "main a w =
     (case load_config w of
        (Inl e, w1) \<Rightarrow> (Raised e, w1)
      | (Inr config, w1) \<Rightarrow>
          if (case arg_provider a of None \<Rightarrow> False | Some p \<Rightarrow> p \<notin> set known_providers)
          then (Exit 2, w1)
          else if arg_setup a then
            (case setup_config w1 of
               (Inl e, w2) \<Rightarrow> (Raised e, w2)
             | (Inr u, w2) \<Rightarrow> (Returned, w2))
          else
            (case or_else (arg_provider a) (item config ''default_provider'') of
               Inl e \<Rightarrow> (Raised e, w1)
             | Inr pv \<Rightarrow>
                 (case as_known pv of
                    None \<Rightarrow> (Returned, say [T ''Unknown provider: '', V pv] w1)
                  | Some provider \<Rightarrow>
                      (case then_do (load_keys w1) (\<lambda>keys.
                            then_do (item keys provider) (\<lambda>k. Inr (keys, k))) of
                         Inl e \<Rightarrow> (Raised e, w1)
                       | Inr (keys, k) \<Rightarrow>
                           if \<not> truthy k then
                             (Exit 1,
                              say [T ''No API key configured for '', T provider,
                                   T ''. Run with --setup to configure.''] w1)
                           else if arg_list_models a then
                             (case then_do (item config provider) (\<lambda>c. item c ''api_key'') of
                                Inl e \<Rightarrow> (Raised e, w1)
                              | Inr api_key \<Rightarrow>
                                  (case list_models provider api_key w1 of
                                     (Inl e, w2) \<Rightarrow> (Raised e, w2)
                                   | (Inr u, w2) \<Rightarrow> (Returned, w2)))
                           else
                             (case get_prompt a w1 of
                                (FileError, w2) \<Rightarrow> (Returned, w2)
                              | (Resolved pr, w2) \<Rightarrow>
                                  (case nonempty pr of
                                     None \<Rightarrow> (Returned, w2\<lparr>out := out w2 @ [Help]\<rparr>)
                                   | Some prompt \<Rightarrow>
                                       (case or_else (arg_model a)
                                               (then_do (item config provider)
                                                  (\<lambda>c. item c ''default_model'')) of
                                          Inl e \<Rightarrow> (Raised e, w2)
                                        | Inr model \<Rightarrow>
                                            (case dispatch provider prompt model keys w2 of
                                               (Inl e, w3) \<Rightarrow> (Raised e, w3)
                                             | (Inr response, w3) \<Rightarrow>
                                                 (Returned,
                                                  if truthy response then say [V response] w3
                                                  else w3)))))))))"

section \<open>Vocabulary of the properties\<close>

text \<open>The request the adapter of a provider sends for a prompt, a model and a key.\<close>

definition request_for :: "string \<Rightarrow> string \<Rightarrow> json \<Rightarrow> json \<Rightarrow> request" where
  "request_for provider prompt model api_key =
     (if provider = ''openai'' then openai_request prompt model api_key
      else if provider = ''openrouter'' then openrouter_request prompt model api_key
      else anthropic_request prompt model api_key)"

text \<open>
  An invocation that gets as far as the credential check of \<open>main\<close> (line 242): the
  configuration loaded as \<open>config\<close> and left the world \<open>w1\<close>, the parser accepted the
  provider, the setup flag is off, the resolved provider is the known provider \<open>p\<close>,
  and the credentials loaded as \<open>keys\<close> with \<open>k\<close> stored for \<open>p\<close>.
\<close>

definition at_keys :: "args \<Rightarrow> world \<Rightarrow> json \<Rightarrow> world \<Rightarrow> string \<Rightarrow> json \<Rightarrow> json \<Rightarrow> bool" where
  "at_keys a w config w1 p keys k =
     (load_config w = (Inr config, w1)
      \<and> (case arg_provider a of None \<Rightarrow> True | Some q \<Rightarrow> q \<in> set known_providers)
      \<and> \<not> arg_setup a
      \<and> or_else (arg_provider a) (item config ''default_provider'') = Inr (JStr p)
      \<and> p \<in> set known_providers
      \<and> load_keys w1 = Inr keys
      \<and> item keys p = Inr k)"

text \<open>A mapping has an entry for a provider: subscripting it with the name succeeds.\<close>

definition has_entry :: "json \<Rightarrow> string \<Rightarrow> bool" where
  "has_entry keys p = (case item keys p of Inr v \<Rightarrow> True | Inl e \<Rightarrow> False)"

text \<open>
  The documented response shapes, read off the specification rather than the code:
  \<^verbatim>\<open>{"choices": [{"message": {"content": X}}, ...]}\<close> for the two chat providers and
  \<^verbatim>\<open>{"content": [{"text": X}, ...]}\<close> for the third.
\<close>

fun field :: "json \<Rightarrow> string \<Rightarrow> json option" where
  "field (JObj kvs) k = map_of kvs k"
| "field _ k = None"

fun first_elem :: "json \<Rightarrow> json option" where
  "first_elem (JArr (x # xs)) = Some x"
| "first_elem _ = None"

definition spec_chat_shape :: "json \<Rightarrow> string \<Rightarrow> bool" where
  "spec_chat_shape body x =
     (case field body ''choices'' of
        None \<Rightarrow> False
      | Some choices \<Rightarrow>
          (case first_elem choices of
             None \<Rightarrow> False
           | Some choice \<Rightarrow>
               (case field choice ''message'' of
                  None \<Rightarrow> False
                | Some message \<Rightarrow> field message ''content'' = Some (JStr x))))"

definition spec_content_shape :: "json \<Rightarrow> string \<Rightarrow> bool" where
  "spec_content_shape body x =
     (case field body ''content'' of
        None \<Rightarrow> False
      | Some content \<Rightarrow>
          (case first_elem content of
             None \<Rightarrow> False
           | Some block \<Rightarrow> field block ''text'' = Some (JStr x)))"

subsection \<open>Concrete worlds and invocations\<close>

text \<open>A first run: nothing on disk, no network, standard input a terminal.\<close>

definition bare_world :: world where
  "bare_world =
     \<lparr>config_file = NoFile, keys_file = NoFile, out = [], sent = [],
      http = (\<lambda>rq. Inl ConnectionError), read_file = (\<lambda>p. Inl FileNotFoundError),
      stdin_isatty = True, stdin_text = [], getpass_in = [], input_in = []\<rparr>"

definition no_args :: args where
  "no_args = \<lparr>arg_model = None, arg_prompt = None, arg_provider = None, arg_setup = False,
              arg_list_models = False, arg_file = None\<rparr>"

definition chat_reply :: "string \<Rightarrow> response" where
  "chat_reply x =
     \<lparr>status_code = 200, resp_text = ''{...}'',
      resp_json = Inr (JObj [(''id'', JStr ''gen-1''),
        (''choices'', JArr [JObj [(''index'', JInt 0),
            (''message'', JObj [(''role'', JStr ''assistant''), (''content'', JStr x)])]])])\<rparr>"

definition content_reply :: "string \<Rightarrow> response" where
  "content_reply x =
     \<lparr>status_code = 200, resp_text = ''{...}'',
      resp_json = Inr (JObj [(''id'', JStr ''msg-1''),
        (''content'', JArr [JObj [(''type'', JStr ''text''), (''text'', JStr x)]])])\<rparr>"

definition catalog_reply :: response where
  "catalog_reply =
     \<lparr>status_code = 200, resp_text = ''{...}'',
      resp_json = Inr (JObj [(''data'', JArr
        [JObj [(''id'', JStr ''gpt-4''), (''name'', JStr ''GPT-4'')],
         JObj [(''id'', JStr ''davinci-002''), (''name'', JStr ''Davinci'')],
         JObj [(''id'', JStr ''GPT-3.5-turbo''), (''name'', JStr ''GPT 3.5'')]])])\<rparr>"

text \<open>
  A configured installation: the default configuration and three keys on disk, a network
  that answers every adapter with the generated text \<open>x\<close> in that provider's shape and
  every catalogue query with three entries, a prompt file \<^verbatim>\<open>p.txt\<close>, and piped input.
\<close>

definition ready_world :: "string \<Rightarrow> world" where
  "ready_world x =
     \<lparr>config_file = Holds DEFAULT_CONFIG,
      keys_file = Holds (JObj [(''openai'', JStr ''sk-1''), (''openrouter'', JStr ''sk-2''),
                               (''anthropic'', JStr ''sk-3'')]),
      out = [], sent = [],
      http = (\<lambda>rq. case rq of
                Post url hdrs body \<Rightarrow>
                  if url = ''https://api.anthropic.com/v1/messages''
                  then Inr (content_reply x) else Inr (chat_reply x)
              | Get url hdrs \<Rightarrow> Inr catalog_reply),
      read_file = (\<lambda>p. if p = ''p.txt'' then Inr ''from file'' else Inl FileNotFoundError),
      stdin_isatty = False, stdin_text = ''from stdin'', getpass_in = [], input_in = []\<rparr>"

section \<open>Properties\<close>

subsection \<open>The stores\<close>

text \<open>
  C6, as amended. If the key file is missing, or its contents decode as text that is
  not valid JSON, \<open>load_keys\<close> returns the default mapping, in which each of the three
  providers maps to the empty string; if the file is there and parses, \<open>load_keys\<close>
  returns the parsed value unchanged.
\<close>

theorem load_keys_default_or_parsed:
  "load_keys (w\<lparr>keys_file := NoFile\<rparr>) =
     Inr (JObj [(''openai'', JStr []), (''openrouter'', JStr []), (''anthropic'', JStr [])])
   \<and> load_keys (w\<lparr>keys_file := Fails FileNotFoundError\<rparr>) =
     Inr (JObj [(''openai'', JStr []), (''openrouter'', JStr []), (''anthropic'', JStr [])])
   \<and> load_keys (w\<lparr>keys_file := Fails JSONDecodeError\<rparr>) =
     Inr (JObj [(''openai'', JStr []), (''openrouter'', JStr []), (''anthropic'', JStr [])])
   \<and> load_keys (w\<lparr>keys_file := Holds v\<rparr>) = Inr v"
  by (simp add: load_keys_def)

text \<open>
  C7. With no configuration file, \<open>load_config\<close> leaves a file that holds the
  hard-coded default structure (three providers, each with \<^verbatim>\<open>api_key\<close> and
  \<^verbatim>\<open>default_model\<close>, and \<^verbatim>\<open>default_provider\<close>) and returns that structure; with a
  file, it returns what the file parses to, and a failure to parse goes to the caller.
\<close>

theorem load_config_default_or_parsed:
  "fst (load_config (w\<lparr>config_file := NoFile\<rparr>)) = Inr DEFAULT_CONFIG
   \<and> config_file (snd (load_config (w\<lparr>config_file := NoFile\<rparr>))) = Holds DEFAULT_CONFIG
   \<and> load_config (w\<lparr>config_file := Holds v\<rparr>) = (Inr v, w\<lparr>config_file := Holds v\<rparr>)
   \<and> load_config (w\<lparr>config_file := Fails e\<rparr>) = (Inl e, w\<lparr>config_file := Fails e\<rparr>)
   \<and> dict_keys DEFAULT_CONFIG = known_providers @ [''default_provider'']
   \<and> map (\<lambda>p. then_do (item DEFAULT_CONFIG p) (\<lambda>c. Inr (dict_keys c))) known_providers
       = [Inr [''api_key'', ''default_model''], Inr [''api_key'', ''default_model''],
          Inr [''api_key'', ''default_model'']]"
  by (simp add: load_config_def say_def DEFAULT_CONFIG_def known_providers_def then_do_def)

text \<open>
  C6 as stated fails on a key file whose contents do not decode as text: they do not
  parse as JSON, yet reading raises \<open>UnicodeDecodeError\<close>, which the handler of
  \<open>load_keys\<close> does not catch, and the exception ends the dispatcher.
\<close>

theorem load_keys_undecodable_counterexample:
  "load_keys (bare_world\<lparr>keys_file := Fails UnicodeDecodeError\<rparr>) = Inl UnicodeDecodeError
   \<and> fst (main no_args (bare_world\<lparr>keys_file := Fails UnicodeDecodeError\<rparr>))
       = Raised UnicodeDecodeError"
  by (simp add: load_keys_def main_def load_config_def bare_world_def no_args_def say_def
        or_else_def DEFAULT_CONFIG_def known_providers_def then_do_def)

subsection \<open>The dispatcher up to the credential check\<close>

lemma load_config_keeps:
  "load_config w = (Inr config, w1) \<Longrightarrow>
     sent w1 = sent w \<and> http w1 = http w \<and> read_file w1 = read_file w
     \<and> stdin_isatty w1 = stdin_isatty w \<and> stdin_text w1 = stdin_text w
     \<and> keys_file w1 = keys_file w"
  by (auto simp: load_config_def say_def split: jfile.splits)

lemma main_at_keys:
  assumes "at_keys a w config w1 p keys k"
  shows "main a w =
     (if \<not> truthy k then
        (Exit 1, say [T ''No API key configured for '', T p,
                      T ''. Run with --setup to configure.''] w1)
      else if arg_list_models a then
        (case then_do (item config p) (\<lambda>c. item c ''api_key'') of
           Inl e \<Rightarrow> (Raised e, w1)
         | Inr api_key \<Rightarrow>
             (case list_models p api_key w1 of
                (Inl e, w2) \<Rightarrow> (Raised e, w2)
              | (Inr u, w2) \<Rightarrow> (Returned, w2)))
      else
        (case get_prompt a w1 of
           (FileError, w2) \<Rightarrow> (Returned, w2)
         | (Resolved pr, w2) \<Rightarrow>
             (case nonempty pr of
                None \<Rightarrow> (Returned, w2\<lparr>out := out w2 @ [Help]\<rparr>)
              | Some prompt \<Rightarrow>
                  (case or_else (arg_model a)
                          (then_do (item config p) (\<lambda>c. item c ''default_model'')) of
                     Inl e \<Rightarrow> (Raised e, w2)
                   | Inr model \<Rightarrow>
                       (case dispatch p prompt model keys w2 of
                          (Inl e, w3) \<Rightarrow> (Raised e, w3)
                        | (Inr response, w3) \<Rightarrow>
                            (Returned,
                             if truthy response then say [V response] w3 else w3))))))"
  using assms unfolding at_keys_def main_def
  by (simp add: then_do_def split: option.splits)

text \<open>
  C2. Without the setup flag, when the resolved provider is one of the three known ones
  and the credential stored for it is the empty string, \<open>main\<close> prints the diagnostic as
  its last output, exits with status 1, and has made no network call.
\<close>

theorem missing_credential_exits_1:
  assumes "at_keys a w config w1 p keys (JStr [])"
  shows "fst (main a w) = Exit 1
       \<and> out (snd (main a w)) =
           out w1 @ [Print [T ''No API key configured for '', T p,
                            T ''. Run with --setup to configure.'']]
       \<and> sent (snd (main a w)) = sent w"
proof -
  from assms have "load_config w = (Inr config, w1)"
    by (simp add: at_keys_def)
  then have "sent w1 = sent w"
    by (simp add: load_config_keeps)
  then show ?thesis
    by (simp add: main_at_keys [OF assms] say_def)
qed

theorem missing_credential_exits_1_witness:
  "at_keys no_args bare_world DEFAULT_CONFIG (snd (load_config bare_world)) ''openrouter''
     (JObj [(''openai'', JStr []), (''openrouter'', JStr []), (''anthropic'', JStr [])])
     (JStr [])
   \<and> fst (main no_args bare_world) = Exit 1
   \<and> sent (snd (main no_args bare_world)) = []"
proof -
  have h: "at_keys no_args bare_world DEFAULT_CONFIG (snd (load_config bare_world))
     ''openrouter''
     (JObj [(''openai'', JStr []), (''openrouter'', JStr []), (''anthropic'', JStr [])])
     (JStr [])"
    by (simp add: at_keys_def load_config_def bare_world_def no_args_def say_def
          or_else_def DEFAULT_CONFIG_def known_providers_def load_keys_def)
  have "sent bare_world = []"
    by (simp add: bare_world_def)
  with missing_credential_exits_1 [OF h] h show ?thesis
    by simp
qed

text \<open>
  C3, as amended. When the key file is absent, or its contents decode as text that is
  not valid JSON, the mapping obtained by
  \<open>load_keys\<close> has an entry, the empty string, for each of the three providers. When
  the file parses, \<open>load_keys\<close> hands on what it holds, so the mapping has an entry for
  a provider exactly when the file has one.
\<close>

theorem load_keys_entries:
  "(keys_file w = NoFile \<or> keys_file w = Fails FileNotFoundError
      \<or> keys_file w = Fails JSONDecodeError \<longrightarrow>
      (\<exists>keys. load_keys w = Inr keys
         \<and> item keys ''openai'' = Inr (JStr [])
         \<and> item keys ''openrouter'' = Inr (JStr [])
         \<and> item keys ''anthropic'' = Inr (JStr [])))
   \<and> (keys_file w = Holds v \<longrightarrow>
        load_keys w = Inr v
        \<and> (has_entry v ''openai'' \<and> has_entry v ''openrouter'' \<and> has_entry v ''anthropic''
             \<longrightarrow> (\<exists>keys. load_keys w = Inr keys \<and> has_entry keys ''openai''
                    \<and> has_entry keys ''openrouter'' \<and> has_entry keys ''anthropic'')))"
  by (auto simp: load_keys_def)

theorem load_keys_entries_witness:
  "keys_file bare_world = NoFile
   \<and> (\<exists>keys. load_keys bare_world = Inr keys
         \<and> item keys ''openai'' = Inr (JStr [])
         \<and> item keys ''openrouter'' = Inr (JStr [])
         \<and> item keys ''anthropic'' = Inr (JStr []))
   \<and> keys_file (ready_world ''hello'') =
        Holds (JObj [(''openai'', JStr ''sk-1''), (''openrouter'', JStr ''sk-2''),
                     (''anthropic'', JStr ''sk-3'')])
   \<and> has_entry (JObj [(''openai'', JStr ''sk-1''), (''openrouter'', JStr ''sk-2''),
                     (''anthropic'', JStr ''sk-3'')]) ''openai''
   \<and> has_entry (JObj [(''openai'', JStr ''sk-1''), (''openrouter'', JStr ''sk-2''),
                     (''anthropic'', JStr ''sk-3'')]) ''openrouter''
   \<and> has_entry (JObj [(''openai'', JStr ''sk-1''), (''openrouter'', JStr ''sk-2''),
                     (''anthropic'', JStr ''sk-3'')]) ''anthropic''
   \<and> load_keys (ready_world ''hello'') =
        Inr (JObj [(''openai'', JStr ''sk-1''), (''openrouter'', JStr ''sk-2''),
                   (''anthropic'', JStr ''sk-3'')])"
proof -
  have a: "keys_file bare_world = NoFile"
    by (simp add: bare_world_def)
  have b: "keys_file (ready_world ''hello'') =
        Holds (JObj [(''openai'', JStr ''sk-1''), (''openrouter'', JStr ''sk-2''),
                     (''anthropic'', JStr ''sk-3'')])"
    by (simp add: ready_world_def)
  have c: "has_entry (JObj [(''openai'', JStr ''sk-1''), (''openrouter'', JStr ''sk-2''),
                     (''anthropic'', JStr ''sk-3'')]) ''openai''"
    "has_entry (JObj [(''openai'', JStr ''sk-1''), (''openrouter'', JStr ''sk-2''),
                     (''anthropic'', JStr ''sk-3'')]) ''openrouter''"
    "has_entry (JObj [(''openai'', JStr ''sk-1''), (''openrouter'', JStr ''sk-2''),
                     (''anthropic'', JStr ''sk-3'')]) ''anthropic''"
    by (simp_all add: has_entry_def)
  from a b c load_keys_entries [of bare_world JNull]
    load_keys_entries [of "ready_world ''hello''"
      "JObj [(''openai'', JStr ''sk-1''), (''openrouter'', JStr ''sk-2''),
             (''anthropic'', JStr ''sk-3'')]"]
  show ?thesis
    by simp
qed

text \<open>
  C3 as stated fails on a key file that holds the empty object: \<open>load_keys\<close> returns it
  with no entry at all, and the dispatcher's lookup of the provider's key raises
  \<open>KeyError\<close>. It fails as well on an unparsable file whose contents do not decode as
  text: \<open>load_keys\<close> raises and there is no mapping.
\<close>

theorem load_keys_empty_object_counterexample:
  "load_keys (bare_world\<lparr>keys_file := Fails UnicodeDecodeError\<rparr>) = Inl UnicodeDecodeError
   \<and> load_keys (bare_world\<lparr>keys_file := Holds (JObj [])\<rparr>) = Inr (JObj [])
   \<and> \<not> has_entry (JObj []) ''openai''
   \<and> \<not> has_entry (JObj []) ''openrouter''
   \<and> \<not> has_entry (JObj []) ''anthropic''
   \<and> fst (main no_args (bare_world\<lparr>keys_file := Holds (JObj [])\<rparr>)) = Raised KeyError"
  by (simp add: load_keys_def has_entry_def main_def load_config_def bare_world_def
        no_args_def say_def or_else_def DEFAULT_CONFIG_def known_providers_def then_do_def)

subsection \<open>The prompt and the dispatch\<close>

lemma query_openai_sent:
  "sent (snd (query_openai prompt m k w)) = sent w @ [openai_request prompt m k]"
  by (simp add: query_openai_def Let_def say_def split: sum.splits)

lemma query_openrouter_sent:
  "sent (snd (query_openrouter prompt m k w)) = sent w @ [openrouter_request prompt m k]"
  by (simp add: query_openrouter_def Let_def say_def split: sum.splits)

lemma query_anthropic_sent:
  "sent (snd (query_anthropic prompt m k w)) = sent w @ [anthropic_request prompt m k]"
  by (simp add: query_anthropic_def Let_def say_def split: sum.splits)

lemma dispatch_sent:
  assumes "p \<in> set known_providers" "item keys p = Inr k"
  shows "sent (snd (dispatch p prompt m keys w)) = sent w @ [request_for p prompt m k]"
  using assms
  by (auto simp: dispatch_def known_providers_def request_for_def query_openai_sent
        query_openrouter_sent query_anthropic_sent)

lemma main_sends:
  assumes at: "at_keys a w config w1 p keys k" and k: "truthy k"
    and nl: "\<not> arg_list_models a"
    and m: "or_else (arg_model a) (then_do (item config p) (\<lambda>c. item c ''default_model''))
              = Inr m"
    and g: "get_prompt a w1 = (Resolved (Some pr), w1)" and pr: "pr \<noteq> []"
  shows "sent (snd (main a w)) = sent w @ [request_for p pr m k]"
proof -
  from at have lc: "load_config w = (Inr config, w1)" and p: "p \<in> set known_providers"
    and ik: "item keys p = Inr k"
    by (simp_all add: at_keys_def)
  have s: "sent (snd (dispatch p pr m keys w1)) = sent w @ [request_for p pr m k]"
    using dispatch_sent [OF p ik] load_config_keeps [OF lc] by simp
  obtain res w3 where d: "dispatch p pr m keys w1 = (res, w3)"
    by (cases "dispatch p pr m keys w1")
  with s have s3: "sent w3 = sent w @ [request_for p pr m k]"
    by simp
  show ?thesis
    using s3 d k nl m g pr
    by (cases res) (simp_all add: main_at_keys [OF at] say_def)
qed


lemma ready_at_keys:
  "arg_provider a = None \<Longrightarrow> \<not> arg_setup a \<Longrightarrow>
   at_keys a (ready_world x) DEFAULT_CONFIG (ready_world x) ''openrouter''
     (JObj [(''openai'', JStr ''sk-1''), (''openrouter'', JStr ''sk-2''),
            (''anthropic'', JStr ''sk-3'')]) (JStr ''sk-2'')"
  by (simp add: at_keys_def load_config_def ready_world_def or_else_def DEFAULT_CONFIG_def
        known_providers_def load_keys_def)

lemma ready_model:
  "arg_model a = None \<Longrightarrow>
   or_else (arg_model a) (then_do (item DEFAULT_CONFIG ''openrouter'')
       (\<lambda>c. item c ''default_model'')) = Inr (JStr ''google/gemini-2.0-pro-exp-02-05:free'')"
  by (simp add: or_else_def then_do_def DEFAULT_CONFIG_def)



text \<open>
  C9, as amended. When the adapter returns a truthy result (for a string: a non-empty
  one), \<open>main\<close> prints it verbatim as its last output; when the adapter returns
  \<^verbatim>\<open>None\<close> or another falsy value, \<open>main\<close> prints nothing after the adapter.
\<close>

theorem truthy_result_printed:
  assumes at: "at_keys a w config w1 p keys k" and k: "truthy k"
    and nl: "\<not> arg_list_models a"
    and m: "or_else (arg_model a) (then_do (item config p) (\<lambda>c. item c ''default_model''))
              = Inr m"
    and g: "get_prompt a w1 = (Resolved (Some pr), w1)" and pr: "pr \<noteq> []"
    and d: "dispatch p pr m keys w1 = (Inr r, w3)"
  shows "fst (main a w) = Returned
       \<and> out (snd (main a w)) = out w3 @ (if truthy r then [Print [V r]] else [])"
  using k nl m g pr d
  by (simp add: main_at_keys [OF at] say_def)

lemma ready_dispatch:
  "dispatch ''openrouter'' ''literal'' (JStr ''google/gemini-2.0-pro-exp-02-05:free'')
     (JObj [(''openai'', JStr ''sk-1''), (''openrouter'', JStr ''sk-2''),
            (''anthropic'', JStr ''sk-3'')]) (ready_world x) =
   (Inr (JStr x),
    (ready_world x)\<lparr>sent := [openrouter_request ''literal''
        (JStr ''google/gemini-2.0-pro-exp-02-05:free'') (JStr ''sk-2'')]\<rparr>)"
  by (simp add: dispatch_def query_openrouter_def Let_def ready_world_def
        openrouter_request_def chat_text_def chat_reply_def ok_def then_do_def)

theorem truthy_result_printed_witness:
  "fst (main (no_args\<lparr>arg_prompt := Some ''literal''\<rparr>) (ready_world ''hello'')) = Returned
   \<and> out (snd (main (no_args\<lparr>arg_prompt := Some ''literal''\<rparr>) (ready_world ''hello''))) =
       [Print [V (JStr ''hello'')]]"
proof -
  let ?a = "no_args\<lparr>arg_prompt := Some ''literal''\<rparr>"
  have g: "get_prompt ?a (ready_world ''hello'') =
             (Resolved (Some ''literal''), ready_world ''hello'')"
    by (simp add: get_prompt_def no_args_def)
  have "fst (main ?a (ready_world ''hello'')) = Returned
       \<and> out (snd (main ?a (ready_world ''hello''))) =
           out ((ready_world ''hello'')\<lparr>sent := [openrouter_request ''literal''
                 (JStr ''google/gemini-2.0-pro-exp-02-05:free'') (JStr ''sk-2'')]\<rparr>)
           @ (if truthy (JStr ''hello'') then [Print [V (JStr ''hello'')]] else [])"
    by (rule truthy_result_printed [OF ready_at_keys _ _ ready_model g _ ready_dispatch])
       (simp_all add: no_args_def)
  then show ?thesis
    by (simp add: ready_world_def)
qed

text \<open>
  C9 as stated fails when the adapter returns the empty string, which is a present
  result and not \<^verbatim>\<open>None\<close>: \<open>main\<close> prints nothing.
\<close>

theorem empty_result_not_printed_counterexample:
  "fst (dispatch ''openrouter'' ''literal'' (JStr ''google/gemini-2.0-pro-exp-02-05:free'')
         (JObj [(''openai'', JStr ''sk-1''), (''openrouter'', JStr ''sk-2''),
                (''anthropic'', JStr ''sk-3'')]) (ready_world [])) = Inr (JStr [])
   \<and> JStr [] \<noteq> JNull
   \<and> fst (main (no_args\<lparr>arg_prompt := Some ''literal''\<rparr>) (ready_world [])) = Returned
   \<and> out (snd (main (no_args\<lparr>arg_prompt := Some ''literal''\<rparr>) (ready_world []))) = []"
proof -
  let ?a = "no_args\<lparr>arg_prompt := Some ''literal''\<rparr>"
  let ?w = "ready_world []"
  have at: "at_keys ?a ?w DEFAULT_CONFIG ?w ''openrouter''
     (JObj [(''openai'', JStr ''sk-1''), (''openrouter'', JStr ''sk-2''),
            (''anthropic'', JStr ''sk-3'')]) (JStr ''sk-2'')"
    by (rule ready_at_keys) (simp_all add: no_args_def)
  have g: "get_prompt ?a ?w = (Resolved (Some ''literal''), ?w)"
    by (simp add: get_prompt_def no_args_def)
  have m: "or_else (arg_model ?a) (then_do (item DEFAULT_CONFIG ''openrouter'')
       (\<lambda>c. item c ''default_model'')) = Inr (JStr ''google/gemini-2.0-pro-exp-02-05:free'')"
    by (rule ready_model) (simp add: no_args_def)
  have nl: "\<not> arg_list_models ?a"
    by (simp add: no_args_def)
  have "main ?a ?w = (Returned, ?w\<lparr>sent := [openrouter_request ''literal''
        (JStr ''google/gemini-2.0-pro-exp-02-05:free'') (JStr ''sk-2'')]\<rparr>)"
    using g m nl by (simp add: main_at_keys [OF at] ready_dispatch)
  moreover have "out ?w = []"
    by (simp add: ready_world_def)
  ultimately show ?thesis
    by (simp add: ready_dispatch)
qed

lemma get_prompt_empty_literal:
  "get_prompt (a\<lparr>arg_prompt := Some []\<rparr>) w = get_prompt (a\<lparr>arg_prompt := None\<rparr>) w"
  by (simp add: get_prompt_def)

lemma main_empty_literal:
  "main (a\<lparr>arg_prompt := Some []\<rparr>) w = main (a\<lparr>arg_prompt := None\<rparr>) w"
  by (simp add: main_def get_prompt_empty_literal
        cong: prod.case_cong sum.case_cong option.case_cong resolved.case_cong if_cong)

text \<open>
  C10. A literal argument that is supplied but empty counts as absent: the run is the
  run without it, and resolution falls through. With a non-empty file argument the
  prompt is the contents of that file, whatever standard input holds, and a failed read
  ends the run after its diagnostic; without one the prompt is what is piped into
  standard input. If what resolves is empty (an empty file, empty piped input, or no
  source at all), \<open>main\<close> prints the usage help and returns, and no adapter has been
  called: no request was sent.
\<close>

theorem empty_literal_is_absent:
  assumes at: "at_keys a w config w1 p keys k" and k: "truthy k"
    and nl: "\<not> arg_list_models a"
    and e: "arg_prompt a = Some []"
  shows "main a w = main (a\<lparr>arg_prompt := None\<rparr>) w
       \<and> (\<forall>f body m. arg_file a = Some f \<and> f \<noteq> [] \<and> read_file w f = Inr body \<and> body \<noteq> []
              \<and> or_else (arg_model a) (then_do (item config p) (\<lambda>c. item c ''default_model''))
                  = Inr m \<longrightarrow>
            sent (snd (main a w)) = sent w @ [request_for p body m k])
       \<and> (\<forall>f err. arg_file a = Some f \<and> f \<noteq> [] \<and> read_file w f = Inl err \<longrightarrow>
            fst (main a w) = Returned
            \<and> out (snd (main a w)) = out w1 @ [Print [T ''Error reading file: '', E err]]
            \<and> sent (snd (main a w)) = sent w)
       \<and> (\<forall>m. nonempty (arg_file a) = None \<and> \<not> stdin_isatty w \<and> stdin_text w \<noteq> []
              \<and> or_else (arg_model a) (then_do (item config p) (\<lambda>c. item c ''default_model''))
                  = Inr m \<longrightarrow>
            sent (snd (main a w)) = sent w @ [request_for p (stdin_text w) m k])
       \<and> ((case nonempty (arg_file a) of
              Some f \<Rightarrow> read_file w f = Inr []
            | None \<Rightarrow> stdin_isatty w \<or> stdin_text w = []) \<longrightarrow>
           fst (main a w) = Returned
           \<and> out (snd (main a w)) = out w1 @ [Help]
           \<and> sent (snd (main a w)) = sent w)"
proof -
  from at have lc: "load_config w = (Inr config, w1)"
    by (simp add: at_keys_def)
  note keep = load_config_keeps [OF lc]
  have "a = a\<lparr>arg_prompt := Some []\<rparr>"
    using e by simp
  then have A: "main a w = main (a\<lparr>arg_prompt := None\<rparr>) w"
    using main_empty_literal [of a w] by simp
  have F: "sent (snd (main a w)) = sent w @ [request_for p body m k]"
    if "arg_file a = Some f" "f \<noteq> []" "read_file w f = Inr body" "body \<noteq> []"
       "or_else (arg_model a) (then_do (item config p) (\<lambda>c. item c ''default_model'')) = Inr m"
    for f body m
  proof -
    have "get_prompt a w1 = (Resolved (Some body), w1)"
      using that e keep by (simp add: get_prompt_def)
    then show ?thesis
      using main_sends [OF at k nl that(5)] that(4) by simp
  qed
  have X: "fst (main a w) = Returned
            \<and> out (snd (main a w)) = out w1 @ [Print [T ''Error reading file: '', E err]]
            \<and> sent (snd (main a w)) = sent w"
    if "arg_file a = Some f" "f \<noteq> []" "read_file w f = Inl err" for f err
  proof -
    have "get_prompt a w1 = (FileError, say [T ''Error reading file: '', E err] w1)"
      using that e keep by (simp add: get_prompt_def)
    then show ?thesis
      using k nl keep by (simp add: main_at_keys [OF at] say_def)
  qed
  have S: "sent (snd (main a w)) = sent w @ [request_for p (stdin_text w) m k]"
    if "nonempty (arg_file a) = None" "\<not> stdin_isatty w" "stdin_text w \<noteq> []"
       "or_else (arg_model a) (then_do (item config p) (\<lambda>c. item c ''default_model'')) = Inr m"
    for m
  proof -
    have "get_prompt a w1 = (Resolved (Some (stdin_text w)), w1)"
      using that e keep by (simp add: get_prompt_def)
    then show ?thesis
      using main_sends [OF at k nl that(4)] that(3) by simp
  qed
  have B: "fst (main a w) = Returned
           \<and> out (snd (main a w)) = out w1 @ [Help]
           \<and> sent (snd (main a w)) = sent w"
    if "case nonempty (arg_file a) of
              Some f \<Rightarrow> read_file w f = Inr []
            | None \<Rightarrow> stdin_isatty w \<or> stdin_text w = []"
  proof -
    have "\<exists>pr. get_prompt a w1 = (Resolved pr, w1) \<and> nonempty pr = None"
      using that e keep by (auto simp: get_prompt_def split: option.splits)
    then show ?thesis
      using k nl keep by (auto simp: main_at_keys [OF at])
  qed
  from A F X S B show ?thesis
    by blast
qed

theorem empty_literal_is_absent_witness:
  "main (no_args\<lparr>arg_prompt := Some []\<rparr>) (ready_world ''hello'')
     = main (no_args\<lparr>arg_prompt := None\<rparr>) (ready_world ''hello'')
   \<and> sent (snd (main (no_args\<lparr>arg_prompt := Some [], arg_file := Some ''p.txt''\<rparr>)
                   (ready_world ''hello''))) =
       [openrouter_request ''from file'' (JStr ''google/gemini-2.0-pro-exp-02-05:free'')
          (JStr ''sk-2'')]
   \<and> out (snd (main (no_args\<lparr>arg_prompt := Some [], arg_file := Some ''missing.txt''\<rparr>)
                  (ready_world ''hello''))) =
       [Print [T ''Error reading file: '', E FileNotFoundError]]
   \<and> sent (snd (main (no_args\<lparr>arg_prompt := Some [], arg_file := Some ''missing.txt''\<rparr>)
                   (ready_world ''hello''))) = []
   \<and> sent (snd (main (no_args\<lparr>arg_prompt := Some []\<rparr>) (ready_world ''hello''))) =
       [openrouter_request ''from stdin'' (JStr ''google/gemini-2.0-pro-exp-02-05:free'')
          (JStr ''sk-2'')]
   \<and> fst (main (no_args\<lparr>arg_prompt := Some []\<rparr>)
             ((ready_world ''hello'')\<lparr>stdin_text := []\<rparr>)) = Returned
   \<and> out (snd (main (no_args\<lparr>arg_prompt := Some []\<rparr>)
             ((ready_world ''hello'')\<lparr>stdin_text := []\<rparr>))) = [Help]
   \<and> sent (snd (main (no_args\<lparr>arg_prompt := Some []\<rparr>)
             ((ready_world ''hello'')\<lparr>stdin_text := []\<rparr>))) = []"
proof -
  let ?a = "no_args\<lparr>arg_prompt := Some []\<rparr>"
  let ?af = "no_args\<lparr>arg_prompt := Some [], arg_file := Some ''p.txt''\<rparr>"
  let ?ax = "no_args\<lparr>arg_prompt := Some [], arg_file := Some ''missing.txt''\<rparr>"
  let ?w = "ready_world ''hello''"
  let ?v = "(ready_world ''hello'')\<lparr>stdin_text := []\<rparr>"
  let ?m = "JStr ''google/gemini-2.0-pro-exp-02-05:free''"
  let ?keys = "JObj [(''openai'', JStr ''sk-1''), (''openrouter'', JStr ''sk-2''),
            (''anthropic'', JStr ''sk-3'')]"
  have k: "truthy (JStr ''sk-2'')"
    by simp
  have w: "out ?w = []" "sent ?w = []" "read_file ?w ''p.txt'' = Inr ''from file''"
    "read_file ?w ''missing.txt'' = Inl FileNotFoundError"
    "\<not> stdin_isatty ?w" "stdin_text ?w = ''from stdin''"
    by (simp_all add: ready_world_def)
  have r: "request_for ''openrouter'' q ?m (JStr ''sk-2'') =
             openrouter_request q ?m (JStr ''sk-2'')" for q
    by (simp add: request_for_def)
  have md: "or_else (arg_model b) (then_do (item DEFAULT_CONFIG ''openrouter'')
              (\<lambda>c. item c ''default_model'')) = Inr ?m" if "arg_model b = None" for b
    using that by (rule ready_model)
  \<comment> \<open>the empty literal alone, with piped input\<close>
  have at: "at_keys ?a ?w DEFAULT_CONFIG ?w ''openrouter'' ?keys (JStr ''sk-2'')"
    by (rule ready_at_keys) (simp_all add: no_args_def)
  have h: "\<not> arg_list_models ?a" "arg_prompt ?a = Some []"
    by (simp_all add: no_args_def)
  note t = empty_literal_is_absent [OF at k h]
  have "main ?a ?w = main (?a\<lparr>arg_prompt := None\<rparr>) ?w"
    using t by blast
  then have 1: "main ?a ?w = main (no_args\<lparr>arg_prompt := None\<rparr>) ?w"
    by simp
  have "nonempty (arg_file ?a) = None \<and> \<not> stdin_isatty ?w \<and> stdin_text ?w \<noteq> []
      \<and> or_else (arg_model ?a) (then_do (item DEFAULT_CONFIG ''openrouter'')
              (\<lambda>c. item c ''default_model'')) = Inr ?m"
    using w md [of ?a] by (simp add: no_args_def)
  with t have "sent (snd (main ?a ?w)) =
      sent ?w @ [request_for ''openrouter'' (stdin_text ?w) ?m (JStr ''sk-2'')]"
    by blast
  then have 5: "sent (snd (main ?a ?w)) = [openrouter_request ''from stdin'' ?m (JStr ''sk-2'')]"
    using w r by simp
  \<comment> \<open>with a prompt file\<close>
  have atf: "at_keys ?af ?w DEFAULT_CONFIG ?w ''openrouter'' ?keys (JStr ''sk-2'')"
    by (rule ready_at_keys) (simp_all add: no_args_def)
  have hf: "\<not> arg_list_models ?af" "arg_prompt ?af = Some []"
    by (simp_all add: no_args_def)
  note tf = empty_literal_is_absent [OF atf k hf]
  have "arg_file ?af = Some ''p.txt'' \<and> ''p.txt'' \<noteq> [] \<and> read_file ?w ''p.txt'' = Inr ''from file''
      \<and> ''from file'' \<noteq> []
      \<and> or_else (arg_model ?af) (then_do (item DEFAULT_CONFIG ''openrouter'')
              (\<lambda>c. item c ''default_model'')) = Inr ?m"
    using w md [of ?af] by (simp add: no_args_def)
  with tf have "sent (snd (main ?af ?w)) =
      sent ?w @ [request_for ''openrouter'' ''from file'' ?m (JStr ''sk-2'')]"
    by blast
  then have 2: "sent (snd (main ?af ?w)) = [openrouter_request ''from file'' ?m (JStr ''sk-2'')]"
    using w r by simp
  \<comment> \<open>with a file that cannot be read\<close>
  have atx: "at_keys ?ax ?w DEFAULT_CONFIG ?w ''openrouter'' ?keys (JStr ''sk-2'')"
    by (rule ready_at_keys) (simp_all add: no_args_def)
  have hx: "\<not> arg_list_models ?ax" "arg_prompt ?ax = Some []"
    by (simp_all add: no_args_def)
  note tx = empty_literal_is_absent [OF atx k hx]
  have "arg_file ?ax = Some ''missing.txt'' \<and> ''missing.txt'' \<noteq> []
      \<and> read_file ?w ''missing.txt'' = Inl FileNotFoundError"
    using w by (simp add: no_args_def)
  with tx have "out (snd (main ?ax ?w)) =
        out ?w @ [Print [T ''Error reading file: '', E FileNotFoundError]]
      \<and> sent (snd (main ?ax ?w)) = sent ?w"
    by blast
  then have 3: "out (snd (main ?ax ?w)) = [Print [T ''Error reading file: '', E FileNotFoundError]]"
    and 4: "sent (snd (main ?ax ?w)) = []"
    using w by simp_all
  \<comment> \<open>with nothing piped in\<close>
  have atv: "at_keys ?a ?v DEFAULT_CONFIG ?v ''openrouter'' ?keys (JStr ''sk-2'')"
    by (simp add: at_keys_def load_config_def ready_world_def or_else_def DEFAULT_CONFIG_def
        known_providers_def load_keys_def no_args_def)
  note tv = empty_literal_is_absent [OF atv k h]
  have c: "case nonempty (arg_file ?a) of
              Some f \<Rightarrow> read_file ?v f = Inr []
            | None \<Rightarrow> stdin_isatty ?v \<or> stdin_text ?v = []"
    by (simp add: no_args_def)
  have v: "out ?v = []" "sent ?v = []"
    by (simp_all add: ready_world_def)
  from tv c have "fst (main ?a ?v) = Returned \<and> out (snd (main ?a ?v)) = out ?v @ [Help]
      \<and> sent (snd (main ?a ?v)) = sent ?v"
    by blast
  then have 6: "fst (main ?a ?v) = Returned" and 7: "out (snd (main ?a ?v)) = [Help]"
    and 8: "sent (snd (main ?a ?v)) = []"
    using v by simp_all
  from 1 2 3 4 5 6 7 8 show ?thesis
    by blast
qed

subsection \<open>The adapters\<close>

text \<open>
  The first adapter never raises, and a failed call or an error status gives
  \<^verbatim>\<open>None\<close> after the diagnostic.
\<close>

lemma query_openai_never_raises:
  "\<exists>v. fst (query_openai prompt m k w) = Inr v"
  by (simp add: query_openai_def Let_def split: sum.splits)

lemma query_openai_failure:
  assumes "case http w (openai_request prompt m k) of Inl e \<Rightarrow> True | Inr r \<Rightarrow> \<not> ok r"
  shows "fst (query_openai prompt m k w) = Inr JNull
       \<and> (\<exists>e. out (snd (query_openai prompt m k w)) =
                out w @ [Print [T ''Error querying OpenAI: '', E e]])"
  using assms
  by (auto simp: query_openai_def Let_def say_def chat_text_def split: sum.splits)

text \<open>
  C1 fails for the other two adapters. When \<^verbatim>\<open>requests.post\<close> raises, here a
  \<open>ConnectionError\<close>, \<open>query_openrouter\<close> and \<open>query_anthropic\<close> print their diagnostic
  and then raise \<open>UnboundLocalError\<close> from the handler, which reads the local
  \<^verbatim>\<open>response\<close> that the failed call never bound.
\<close>

theorem transport_failure_escapes:
  "http bare_world (openrouter_request ''hi'' (JStr ''m'') (JStr ''k'')) = Inl ConnectionError
   \<and> query_openrouter ''hi'' (JStr ''m'') (JStr ''k'') bare_world =
       (Inl UnboundLocalError,
        bare_world\<lparr>sent := [openrouter_request ''hi'' (JStr ''m'') (JStr ''k'')],
                    out := [Print [T ''Error querying OpenRouter: '', E ConnectionError]]\<rparr>)
   \<and> query_anthropic ''hi'' (JStr ''m'') (JStr ''k'') bare_world =
       (Inl UnboundLocalError,
        bare_world\<lparr>sent := [anthropic_request ''hi'' (JStr ''m'') (JStr ''k'')],
                    out := [Print [T ''Error querying Anthropic: '', E ConnectionError]]\<rparr>)
   \<and> fst (query_openai ''hi'' (JStr ''m'') (JStr ''k'') bare_world) = Inr JNull"
  by (simp add: query_openrouter_def query_anthropic_def query_openai_def bare_world_def
        Let_def say_def)

lemma field_item: "field v k = Some y \<Longrightarrow> item v k = Inr y"
  by (cases v) simp_all

lemma first_elem_item0: "first_elem v = Some y \<Longrightarrow> item0 v = Inr y"
  by (cases v rule: first_elem.cases) simp_all

lemma chat_text_of_shape:
  assumes "ok r" "resp_json r = Inr body" "spec_chat_shape body x"
  shows "chat_text r = Inr (JStr x)"
  using assms
  by (auto simp: chat_text_def spec_chat_shape_def then_do_def
        dest!: field_item first_elem_item0 split: option.splits)

lemma content_text_of_shape:
  assumes "ok r" "resp_json r = Inr body" "spec_content_shape body x"
  shows "content_text r = Inr (JStr x)"
  using assms
  by (auto simp: content_text_def spec_content_shape_def then_do_def
        dest!: field_item first_elem_item0 split: option.splits)

text \<open>
  C5. When the POST succeeds (a response without an error status whose body decodes)
  and the decoded body has the provider's documented shape with generated text \<open>x\<close>,
  the adapter returns exactly \<open>x\<close>, after that one request.
\<close>

theorem adapters_return_generated_text:
  assumes "ok r" "resp_json r = Inr body"
  shows "(http w (openai_request prompt m k) = Inr r \<and> spec_chat_shape body x \<longrightarrow>
            query_openai prompt m k w =
              (Inr (JStr x), w\<lparr>sent := sent w @ [openai_request prompt m k]\<rparr>))
       \<and> (http w (openrouter_request prompt m k) = Inr r \<and> spec_chat_shape body x \<longrightarrow>
            query_openrouter prompt m k w =
              (Inr (JStr x), w\<lparr>sent := sent w @ [openrouter_request prompt m k]\<rparr>))
       \<and> (http w (anthropic_request prompt m k) = Inr r \<and> spec_content_shape body x \<longrightarrow>
            query_anthropic prompt m k w =
              (Inr (JStr x), w\<lparr>sent := sent w @ [anthropic_request prompt m k]\<rparr>))"
  using chat_text_of_shape [OF assms] content_text_of_shape [OF assms]
  by (auto simp: query_openai_def query_openrouter_def query_anthropic_def Let_def)

theorem adapters_return_generated_text_witness:
  "fst (query_openai ''hi'' (JStr ''gpt-3.5-turbo'') (JStr ''sk-1'') (ready_world ''hello''))
     = Inr (JStr ''hello'')
   \<and> fst (query_openrouter ''hi'' (JStr ''m'') (JStr ''sk-2'') (ready_world ''hello''))
     = Inr (JStr ''hello'')
   \<and> fst (query_anthropic ''hi'' (JStr ''claude-3-opus-20240229'') (JStr ''sk-3'')
          (ready_world ''hello''))
     = Inr (JStr ''hello'')"
proof -
  let ?w = "ready_world ''hello''"
  have c: "ok (chat_reply ''hello'')"
    "resp_json (chat_reply ''hello'') = Inr (JObj [(''id'', JStr ''gen-1''),
        (''choices'', JArr [JObj [(''index'', JInt 0),
            (''message'', JObj [(''role'', JStr ''assistant''),
                                (''content'', JStr ''hello'')])]])])"
    by (simp_all add: chat_reply_def ok_def)
  have cs: "spec_chat_shape (JObj [(''id'', JStr ''gen-1''),
        (''choices'', JArr [JObj [(''index'', JInt 0),
            (''message'', JObj [(''role'', JStr ''assistant''),
                                (''content'', JStr ''hello'')])]])]) ''hello''"
    by (simp add: spec_chat_shape_def)
  have a: "ok (content_reply ''hello'')"
    "resp_json (content_reply ''hello'') = Inr (JObj [(''id'', JStr ''msg-1''),
        (''content'', JArr [JObj [(''type'', JStr ''text''), (''text'', JStr ''hello'')]])])"
    by (simp_all add: content_reply_def ok_def)
  have as: "spec_content_shape (JObj [(''id'', JStr ''msg-1''),
        (''content'', JArr [JObj [(''type'', JStr ''text''), (''text'', JStr ''hello'')]])])
        ''hello''"
    by (simp add: spec_content_shape_def)
  have h: "http ?w (openai_request p m k) = Inr (chat_reply ''hello'')"
    "http ?w (openrouter_request p m k) = Inr (chat_reply ''hello'')"
    "http ?w (anthropic_request p m k) = Inr (content_reply ''hello'')" for p m k
    by (simp_all add: ready_world_def openai_request_def openrouter_request_def
          anthropic_request_def)
  have 1: "fst (query_openai ''hi'' (JStr ''gpt-3.5-turbo'') (JStr ''sk-1'') ?w)
             = Inr (JStr ''hello'')"
    using adapters_return_generated_text [OF c, of ?w "''hi''" "JStr ''gpt-3.5-turbo''"
        "JStr ''sk-1''" "''hello''"] h cs
    by simp
  have 2: "fst (query_openrouter ''hi'' (JStr ''m'') (JStr ''sk-2'') ?w) = Inr (JStr ''hello'')"
    using adapters_return_generated_text [OF c, of ?w "''hi''" "JStr ''m''"
        "JStr ''sk-2''" "''hello''"] h cs
    by simp
  have 3: "fst (query_anthropic ''hi'' (JStr ''claude-3-opus-20240229'') (JStr ''sk-3'') ?w)
             = Inr (JStr ''hello'')"
    using adapters_return_generated_text [OF a, of ?w "''hi''" "JStr ''claude-3-opus-20240229''"
        "JStr ''sk-3''" "''hello''"] h as
    by simp
  from 1 2 3 show ?thesis
    by blast
qed

subsection \<open>The model lister\<close>

lemma contains_iff: "contains sub s \<longleftrightarrow> (\<exists>a c. s = a @ sub @ c)"
proof (induction s)
  case Nil
  then show ?case by auto
next
  case (Cons x xs)
  have "take (length sub) (x # xs) = sub \<longleftrightarrow> (\<exists>c. x # xs = sub @ c)"
    by (metis append_eq_conv_conj append_take_drop_id)
  moreover have "(\<exists>a c. x # xs = a @ sub @ c) \<longleftrightarrow>
      (\<exists>c. x # xs = sub @ c) \<or> (\<exists>a c. xs = a @ sub @ c)"
  proof
    assume "\<exists>a c. x # xs = a @ sub @ c"
    then obtain a c where e: "x # xs = a @ sub @ c" by blast
    show "(\<exists>c. x # xs = sub @ c) \<or> (\<exists>a c. xs = a @ sub @ c)"
    proof (cases a)
      case Nil
      with e show ?thesis by auto
    next
      case (Cons y ys)
      with e have "xs = ys @ sub @ c" by simp
      then show ?thesis by blast
    qed
  next
    assume "(\<exists>c. x # xs = sub @ c) \<or> (\<exists>a c. xs = a @ sub @ c)"
    then show "\<exists>a c. x # xs = a @ sub @ c"
    proof
      assume "\<exists>c. x # xs = sub @ c"
      then obtain c where "x # xs = [] @ sub @ c" by auto
      then show ?thesis by blast
    next
      assume "\<exists>a c. xs = a @ sub @ c"
      then obtain a c where "xs = a @ sub @ c" by blast
      then have "x # xs = (x # a) @ sub @ c" by simp
      then show ?thesis by blast
    qed
  qed
  ultimately show ?case
    using Cons.IH by simp
qed

lemma map_append_split:
  "map f s = u @ v \<Longrightarrow> \<exists>a r. s = a @ r \<and> map f a = u \<and> map f r = v"
  by (auto simp only: map_eq_append_conv)

lemma marker_iff:
  "contains g (lower s) \<longleftrightarrow> (\<exists>a b c. s = a @ b @ c \<and> lower b = g)"
proof
  assume "contains g (lower s)"
  then obtain a' c' where "map lower_char s = a' @ (g @ c')"
    unfolding contains_iff lower_def by blast
  from map_append_split [OF this]
  obtain a r where s1: "s = a @ r" and r: "map lower_char r = g @ c'"
    by blast
  from map_append_split [OF r]
  obtain b c where "r = b @ c" and "map lower_char b = g"
    by blast
  with s1 show "\<exists>a b c. s = a @ b @ c \<and> lower b = g"
    unfolding lower_def by blast
next
  assume "\<exists>a b c. s = a @ b @ c \<and> lower b = g"
  then obtain a b c where "s = a @ b @ c" and "lower b = g"
    by blast
  then have "lower s = lower a @ g @ lower c"
    by (simp add: lower_def)
  then show "contains g (lower s)"
    unfolding contains_iff by blast
qed

lemma chat_models_ids:
  "map (\<lambda>m. item m ''id'') entries = map (\<lambda>s. Inr (JStr s)) ids \<Longrightarrow>
   chat_models entries = Inr (filter (\<lambda>s. contains ''gpt'' (lower s)) ids)"
proof (induction entries arbitrary: ids)
  case Nil
  then show ?case by simp
next
  case (Cons m ms)
  then obtain s rest where ids: "ids = s # rest" and m: "item m ''id'' = Inr (JStr s)"
    and ms: "map (\<lambda>m. item m ''id'') ms = map (\<lambda>s. Inr (JStr s)) rest"
    by (cases ids) auto
  from Cons.IH [OF ms] m ids show ?case
    by simp
qed

lemma print_entries_all:
  "map (\<lambda>m. item m ''id'') entries = map Inr ids \<Longrightarrow>
   map (\<lambda>m. item m ''name'') entries = map Inr names \<Longrightarrow>
   print_entries entries w =
     (Inr (), w\<lparr>out := out w @
        map (\<lambda>(i, n). Print [T ''  - '', V i, T '' ('', V n, T '')'']) (zip ids names)\<rparr>)"
proof (induction entries arbitrary: ids names w)
  case Nil
  then show ?case by simp
next
  case (Cons m ms)
  then obtain i ids' n names' where ids: "ids = i # ids'" and names: "names = n # names'"
    and m: "item m ''id'' = Inr i" "item m ''name'' = Inr n"
    and ms: "map (\<lambda>m. item m ''id'') ms = map Inr ids'"
      "map (\<lambda>m. item m ''name'') ms = map Inr names'"
    by (cases ids; cases names) auto
  show ?case
    by (simp add: m ids names Cons.IH [OF ms] say_def)
qed

text \<open>
  C8. For a catalogue whose entries carry their identifiers (and, for the second
  provider, their display names), \<open>list_models\<close> for \<^verbatim>\<open>openai\<close> prints, after its
  heading, exactly the identifiers that contain \<^verbatim>\<open>gpt\<close> in any letter case, in
  lexicographic order; for \<^verbatim>\<open>openrouter\<close> it prints, after its heading, every entry's
  identifier with its display name, in catalogue order.
\<close>

theorem list_models_catalog:
  assumes r: "ok r" "resp_json r = Inr (JObj kvs)" "map_of kvs ''data'' = Some (JArr entries)"
    and ids: "map (\<lambda>m. item m ''id'') entries = map (\<lambda>s. Inr (JStr s)) ids"
  shows "(http w (Get ''https://api.openai.com/v1/models''
                    [(''Authorization'', [T ''Bearer '', V k])]) = Inr r \<longrightarrow>
           (\<exists>ys. list_models ''openai'' k w =
                   (Inr (),
                    w\<lparr>sent := sent w @ [Get ''https://api.openai.com/v1/models''
                                           [(''Authorization'', [T ''Bearer '', V k])]],
                      out := out w @ Print [T (CHR 0x0A # ''Available OpenAI models:'')]
                                   # map (\<lambda>s. Print [T ''  - '', T s]) ys\<rparr>)
               \<and> sorted ys
               \<and> mset ys = mset (filter (\<lambda>s. \<exists>a b c. s = a @ b @ c \<and> lower b = ''gpt'') ids)))
       \<and> (http w (Get ''https://openrouter.ai/api/v1/models''
                    [(''Authorization'', [T ''Bearer '', V k])]) = Inr r
           \<and> map (\<lambda>m. item m ''name'') entries = map Inr names \<longrightarrow>
           list_models ''openrouter'' k w =
             (Inr (),
              w\<lparr>sent := sent w @ [Get ''https://openrouter.ai/api/v1/models''
                                     [(''Authorization'', [T ''Bearer '', V k])]],
                out := out w @ Print [T (CHR 0x0A # ''Available OpenRouter models:'')]
                             # map (\<lambda>(i, n). Print [T ''  - '', V (JStr i), T '' ('', V n, T '')''])
                                 (zip ids names)\<rparr>))"
proof (intro conjI impI)
  let ?rq = "Get ''https://api.openai.com/v1/models'' [(''Authorization'', [T ''Bearer '', V k])]"
  let ?ys = "sort (filter (\<lambda>s. contains ''gpt'' (lower s)) ids)"
  assume h: "http w ?rq = Inr r"
  have cm: "chat_models entries = Inr (filter (\<lambda>s. contains ''gpt'' (lower s)) ids)"
    by (rule chat_models_ids [OF ids])
  have "list_models ''openai'' k w =
          (Inr (), w\<lparr>sent := sent w @ [?rq],
                     out := out w @ Print [T (CHR 0x0A # ''Available OpenAI models:'')]
                                  # map (\<lambda>s. Print [T ''  - '', T s]) ?ys\<rparr>)"
    using h r cm
    by (simp add: list_models_def fetch_catalog_def print_catalog_def then_do_def
          say_def say_all_def Let_def comp_def)
  moreover have "sorted ?ys"
    by simp
  moreover have "mset ?ys = mset (filter (\<lambda>s. \<exists>a b c. s = a @ b @ c \<and> lower b = ''gpt'') ids)"
    by (simp add: marker_iff)
  ultimately show "\<exists>ys. list_models ''openai'' k w =
                   (Inr (),
                    w\<lparr>sent := sent w @ [?rq],
                      out := out w @ Print [T (CHR 0x0A # ''Available OpenAI models:'')]
                                   # map (\<lambda>s. Print [T ''  - '', T s]) ys\<rparr>)
               \<and> sorted ys
               \<and> mset ys = mset (filter (\<lambda>s. \<exists>a b c. s = a @ b @ c \<and> lower b = ''gpt'') ids)"
    by blast
next
  let ?rq = "Get ''https://openrouter.ai/api/v1/models'' [(''Authorization'', [T ''Bearer '', V k])]"
  assume "http w ?rq = Inr r \<and> map (\<lambda>m. item m ''name'') entries = map Inr names"
  then have h: "http w ?rq = Inr r" and n: "map (\<lambda>m. item m ''name'') entries = map Inr names"
    by simp_all
  have i: "map (\<lambda>m. item m ''id'') entries = map Inr (map JStr ids)"
    using ids by simp
  have z: "map (\<lambda>(i, n). Print [T ''  - '', V i, T '' ('', V n, T '')'']) (zip (map JStr ids) names)
         = map (\<lambda>(i, n). Print [T ''  - '', V (JStr i), T '' ('', V n, T '')'']) (zip ids names)"
    by (simp add: zip_map1 case_prod_unfold)
  show "list_models ''openrouter'' k w =
             (Inr (),
              w\<lparr>sent := sent w @ [?rq],
                out := out w @ Print [T (CHR 0x0A # ''Available OpenRouter models:'')]
                             # map (\<lambda>(i, n). Print [T ''  - '', V (JStr i), T '' ('', V n, T '')''])
                                 (zip ids names)\<rparr>)"
    using h r
    by (simp add: list_models_def fetch_catalog_def print_catalog_def then_do_def
          say_def Let_def print_entries_all [OF i n] z)
qed

lemma sorted_mset_sort:
  fixes ys :: "string list"
  shows "sorted ys \<Longrightarrow> mset ys = mset xs \<Longrightarrow> ys = sort xs"
  by (metis properties_for_sort)

theorem list_models_catalog_witness:
  "out (snd (list_models ''openai'' (JStr ''sk-1'') (ready_world ''hello''))) =
     [Print [T (CHR 0x0A # ''Available OpenAI models:'')],
      Print [T ''  - '', T ''GPT-3.5-turbo''],
      Print [T ''  - '', T ''gpt-4'']]
   \<and> out (snd (list_models ''openrouter'' (JStr ''sk-2'') (ready_world ''hello''))) =
     [Print [T (CHR 0x0A # ''Available OpenRouter models:'')],
      Print [T ''  - '', V (JStr ''gpt-4''), T '' ('', V (JStr ''GPT-4''), T '')''],
      Print [T ''  - '', V (JStr ''davinci-002''), T '' ('', V (JStr ''Davinci''), T '')''],
      Print [T ''  - '', V (JStr ''GPT-3.5-turbo''), T '' ('', V (JStr ''GPT 3.5''), T '')'']]"
proof -
  let ?w = "ready_world ''hello''"
  let ?entries = "[JObj [(''id'', JStr ''gpt-4''), (''name'', JStr ''GPT-4'')],
         JObj [(''id'', JStr ''davinci-002''), (''name'', JStr ''Davinci'')],
         JObj [(''id'', JStr ''GPT-3.5-turbo''), (''name'', JStr ''GPT 3.5'')]]"
  let ?ids = "[''gpt-4'', ''davinci-002'', ''GPT-3.5-turbo'']"
  let ?names = "[JStr ''GPT-4'', JStr ''Davinci'', JStr ''GPT 3.5'']"
  have r: "ok catalog_reply" "resp_json catalog_reply = Inr (JObj [(''data'', JArr ?entries)])"
    "map_of [(''data'', JArr ?entries)] ''data'' = Some (JArr ?entries)"
    by (simp_all add: catalog_reply_def ok_def)
  have ids: "map (\<lambda>m. item m ''id'') ?entries = map (\<lambda>s. Inr (JStr s)) ?ids"
    by simp
  have names: "map (\<lambda>m. item m ''name'') ?entries = map Inr ?names"
    by simp
  have h: "http ?w (Get u hs) = Inr catalog_reply" for u hs
    by (simp add: ready_world_def)
  have o: "out ?w = []"
    by (simp add: ready_world_def)
  note c = list_models_catalog [OF r ids, of ?w _ ?names]
  have f: "filter (\<lambda>s. \<exists>a b c. s = a @ b @ c \<and> lower b = ''gpt'') ?ids
             = [''gpt-4'', ''GPT-3.5-turbo'']"
  proof -
    have "filter (\<lambda>s. contains ''gpt'' (lower s)) ?ids = [''gpt-4'', ''GPT-3.5-turbo'']"
      by code_simp
    then show ?thesis
      by (simp only: marker_iff)
  qed
  have s: "sort [''gpt-4'', ''GPT-3.5-turbo''] = [''GPT-3.5-turbo'', ''gpt-4'']"
    by code_simp
  from c [of "JStr ''sk-1''"] h obtain ys
    where l: "list_models ''openai'' (JStr ''sk-1'') ?w =
                   (Inr (),
                    ?w\<lparr>sent := sent ?w @ [Get ''https://api.openai.com/v1/models''
                                           [(''Authorization'', [T ''Bearer '', V (JStr ''sk-1'')])]],
                      out := out ?w @ Print [T (CHR 0x0A # ''Available OpenAI models:'')]
                                   # map (\<lambda>s. Print [T ''  - '', T s]) ys\<rparr>)"
      and "sorted ys"
      and "mset ys = mset (filter (\<lambda>s. \<exists>a b c. s = a @ b @ c \<and> lower b = ''gpt'') ?ids)"
    by blast
  then have "ys = [''GPT-3.5-turbo'', ''gpt-4'']"
    using sorted_mset_sort [of ys "[''gpt-4'', ''GPT-3.5-turbo'']"] f s by simp
  with l o have 1: "out (snd (list_models ''openai'' (JStr ''sk-1'') ?w)) =
     [Print [T (CHR 0x0A # ''Available OpenAI models:'')],
      Print [T ''  - '', T ''GPT-3.5-turbo''],
      Print [T ''  - '', T ''gpt-4'']]"
    by simp
  from c [of "JStr ''sk-2''"] h names
  have "list_models ''openrouter'' (JStr ''sk-2'') ?w =
             (Inr (),
              ?w\<lparr>sent := sent ?w @ [Get ''https://openrouter.ai/api/v1/models''
                                     [(''Authorization'', [T ''Bearer '', V (JStr ''sk-2'')])]],
                out := out ?w @ Print [T (CHR 0x0A # ''Available OpenRouter models:'')]
                             # map (\<lambda>(i, n). Print [T ''  - '', V (JStr i), T '' ('', V n, T '')''])
                                 (zip ?ids ?names)\<rparr>)"
    by blast
  with o have 2: "out (snd (list_models ''openrouter'' (JStr ''sk-2'') ?w)) =
     [Print [T (CHR 0x0A # ''Available OpenRouter models:'')],
      Print [T ''  - '', V (JStr ''gpt-4''), T '' ('', V (JStr ''GPT-4''), T '')''],
      Print [T ''  - '', V (JStr ''davinci-002''), T '' ('', V (JStr ''Davinci''), T '')''],
      Print [T ''  - '', V (JStr ''GPT-3.5-turbo''), T '' ('', V (JStr ''GPT 3.5''), T '')'']]"
    by simp
  from 1 2 show ?thesis
    by blast
qed

end
